theory Spec2Isabelle
  imports Complex_Main "HOL-Library.Word" "HOL-Library.List_Lexorder" "HOL-Library.Sublist"
begin

section \<open>The product listing page of \<^verbatim>\<open>src/app/page.tsx\<close>\<close>

text \<open>
  The page is one async function, \<^verbatim>\<open>Home\<close>: it awaits \<^verbatim>\<open>getProducts\<close>, derives the
  category list and the JSON-LD document from the product array, and returns the markup.
  The theory embeds these steps twice: as functions on values, and, for the claims about
  mutation, as operations on a store of arrays.
\<close>

subsection \<open>Strings and numbers of the language\<close>

text \<open>
  A string of the language is a sequence of 16-bit code units. The literals of the source
  are ASCII; \<open>lit\<close> turns such a literal into its code units.
\<close>

type_synonym js_string = "16 word list"

definition lit :: "string \<Rightarrow> js_string" where
  "lit s = map of_char s"

text \<open>
  The comparison of two strings with \<^verbatim>\<open><\<close>: a proper prefix is smaller, otherwise the
  first code unit that differs decides.
\<close>

fun string_less :: "js_string \<Rightarrow> js_string \<Rightarrow> bool" where
  "string_less [] [] = False"
| "string_less [] (y # ys) = True"
| "string_less (x # xs) [] = False"
| "string_less (x # xs) (y # ys) = (if x = y then string_less xs ys else x < y)"

text \<open>
  \<^verbatim>\<open>Array.prototype.sort()\<close> without a comparator orders strings by \<open>string_less\<close>, and
  is stable. The language leaves the algorithm open; every stable sort returns the same
  array, here an insertion sort that puts an element before the first one that is not
  smaller.
\<close>

fun sort_insert :: "js_string \<Rightarrow> js_string list \<Rightarrow> js_string list" where
  "sort_insert x [] = [x]"
| "sort_insert x (y # ys) = (if string_less y x then y # sort_insert x ys else x # y # ys)"

definition Array_sort :: "js_string list \<Rightarrow> js_string list" where
  "Array_sort xs = foldr sort_insert xs []"

text \<open>
  \<^verbatim>\<open>new Set(iterable)\<close> adds the elements from left to right and keeps the first
  occurrence of each; \<^verbatim>\<open>Array.from(set)\<close> lists them in insertion order. A set is
  modelled by that list.
\<close>

definition Set_add :: "'a list \<Rightarrow> 'a \<Rightarrow> 'a list" where
  "Set_add s x = (if x \<in> set s then s else s @ [x])"

definition new_Set :: "'a list \<Rightarrow> 'a list" where
  "new_Set xs = foldl Set_add [] xs"

definition Array_from :: "'a list \<Rightarrow> 'a list" where
  "Array_from s = s"

subsubsection \<open>Numbers and their strings\<close>

text \<open>
  A number of the language is a double-precision float. The model covers the numbers with
  an integer value, each given as that integer. \<open>round_double v\<close> is the number nearest
  to the natural number \<open>v\<close> (53 significant bits, ties to the even significand); an
  integer \<open>n\<close> is a number when its magnitude is below \<open>2 ^ 1024\<close> and rounds to itself.
  The safe integers, of magnitude at most \<open>2 ^ 53 - 1\<close>, are numbers.
\<close>

fun excess_bits :: "nat \<Rightarrow> nat" where
  "excess_bits v = (if v < 2 ^ 53 then 0 else Suc (excess_bits (v div 2)))"

declare excess_bits.simps [simp del]

definition round_double :: "nat \<Rightarrow> nat" where
  "round_double v =
     (let sh = excess_bits v; q = v div 2 ^ sh; r = v mod 2 ^ sh
      in if 2 * r < 2 ^ sh \<or> (2 * r = 2 ^ sh \<and> even q) then q * 2 ^ sh else (q + 1) * 2 ^ sh)"

definition is_Number :: "int \<Rightarrow> bool" where
  "is_Number n = (\<bar>n\<bar> < 2 ^ 1024 \<and> round_double (nat \<bar>n\<bar>) = nat \<bar>n\<bar>)"

definition isSafeInteger :: "int \<Rightarrow> bool" where
  "isSafeInteger n = (\<bar>n\<bar> \<le> 2 ^ 53 - 1)"

text \<open>The decimal digits of a natural number, and how many they are.\<close>

definition digit_unit :: "nat \<Rightarrow> 16 word" where
  "digit_unit d = of_nat (48 + d)"

fun digits :: "nat \<Rightarrow> js_string" where
  "digits n = (if n < 10 then [digit_unit n] else digits (n div 10) @ [digit_unit (n mod 10)])"

declare digits.simps [simp del]

fun decimal_length :: "nat \<Rightarrow> nat" where
  "decimal_length v = (if v < 10 then 1 else Suc (decimal_length (v div 10)))"

declare decimal_length.simps [simp del]

text \<open>
  The string of a number, as a template literal or a number among the children of a JSX
  element produces it (\<^verbatim>\<open>Number::toString\<close> of the language, radix 10). For a positive
  number \<open>x\<close> it takes the value \<open>s * 10 ^ (n - k)\<close> with the fewest significant digits
  \<open>k\<close> that still rounds to \<open>x\<close>, of several the one nearest to \<open>x\<close>, of two equally near
  the one with even \<open>s\<close>. \<open>shortest_from x d k\<close> looks for it among the multiples of
  \<open>10 ^ (d - k)\<close> next to \<open>x\<close>, where \<open>d\<close> is the decimal length of \<open>x\<close>, for \<open>k\<close>, \<open>k + 1\<close>
  and so on; with \<open>k = d\<close> it is \<open>x\<close> itself.
\<close>

function shortest_from :: "nat \<Rightarrow> nat \<Rightarrow> nat \<Rightarrow> nat" where
  "shortest_from x d k =
     (if d \<le> k then x
      else (let t = 10 ^ (d - k); lo = (x div t) * t; hi = lo + t
            in if round_double lo = x \<and> round_double hi = x
               then (if x - lo < hi - x \<or> (x - lo = hi - x \<and> even (lo div t)) then lo else hi)
               else if round_double lo = x then lo
               else if round_double hi = x then hi
               else shortest_from x d (Suc k)))"
  by pat_completeness auto
termination
  by (relation "measure (\<lambda>(x, d, k). d - k)") auto

declare shortest_from.simps [simp del]

definition shortest :: "nat \<Rightarrow> nat" where
  "shortest x = shortest_from x (decimal_length x) 1"

text \<open>
  That value \<open>v\<close> has \<open>n\<close> digits. Up to \<open>n = 21\<close> the string is the digits of \<open>v\<close>;
  beyond, it is the exponent notation: the first significant digit, a point and the
  other significant digits if there are any, then \<open>e+\<close> and \<open>n - 1\<close>.
\<close>

fun strip_zeros :: "nat \<Rightarrow> nat" where
  "strip_zeros v = (if v = 0 \<or> 0 < v mod 10 then v else strip_zeros (v div 10))"

declare strip_zeros.simps [simp del]

definition exponential :: "nat \<Rightarrow> js_string" where
  "exponential v =
     (let ds = digits (strip_zeros v)
      in (if length ds = 1 then ds else hd ds # lit ''.'' @ tl ds)
         @ lit ''e+'' @ digits (decimal_length v - 1))"

definition positive_toString :: "nat \<Rightarrow> js_string" where
  "positive_toString x =
     (let v = shortest x in if decimal_length v \<le> 21 then digits v else exponential v)"

definition Number_toString :: "int \<Rightarrow> js_string" where
  "Number_toString x =
     (if x = 0 then lit ''0''
      else if x < 0 then lit ''-'' @ positive_toString (nat (- x))
      else positive_toString (nat x))"

subsection \<open>The data\<close>

text \<open>
  \<^verbatim>\<open>type Product\<close>. The \<open>id\<close> is a number with an integer value (section 3 of the
  specification has it an integer); the price is a number that the page only formats, so
  its type is a parameter.
\<close>

record 'n Product =
  id :: int
  title :: js_string
  price :: 'n
  description :: js_string
  category :: js_string
  image :: js_string

subsection \<open>The category list\<close>

text \<open>
  \<^verbatim>\<open>const categories = Array.from(new Set(products.map((p) => p.category))).sort();\<close>
\<close>

definition categories :: "'n Product list \<Rightarrow> js_string list" where
  "categories products = Array_sort (Array_from (new_Set (map category products)))"

subsection \<open>The JSON-LD document\<close>

text \<open>
  The object literal \<^verbatim>\<open>schema\<close>. The keys \<^verbatim>\<open>"@context"\<close>, \<^verbatim>\<open>"@type"\<close>, \<^verbatim>\<open>name\<close> and
  \<^verbatim>\<open>description\<close> of the document are the fields \<open>schema_context\<close>, \<open>schema_type\<close>,
  \<open>schema_name\<close> and \<open>schema_description\<close>. The type of \<open>itemListElement\<close> is a
  parameter: a list of entries in the model on values, the address of the array in the
  model on a store.
\<close>

record ListItem =
  item_type :: js_string
  position :: nat
  url :: js_string
  name :: js_string

record 'a ItemList =
  list_type :: js_string
  itemListElement :: 'a

record 'a CollectionPage =
  schema_context :: js_string
  schema_type :: js_string
  schema_name :: js_string
  schema_description :: js_string
  mainEntity :: "'a ItemList"

text \<open>The callback of \<^verbatim>\<open>products.map((product, index) => ({...}))\<close>.\<close>

definition list_item :: "'n Product \<Rightarrow> nat \<Rightarrow> ListItem" where
  "list_item product index =
     \<lparr>item_type = lit ''ListItem'',
      position = index + 1,
      url = lit ''https://example.com/products/'' @ Number_toString (id product),
      name = title product\<rparr>"

text \<open>\<^verbatim>\<open>Array.prototype.map\<close> with a callback that takes the element and its index.\<close>

definition Array_map_indexed :: "('a \<Rightarrow> nat \<Rightarrow> 'b) \<Rightarrow> 'a list \<Rightarrow> 'b list" where
  "Array_map_indexed f xs = map (\<lambda>(index, x). f x index) (enumerate 0 xs)"

definition schema_with :: "'a \<Rightarrow> 'a CollectionPage" where
  "schema_with items =
     \<lparr>schema_context = lit ''https://schema.org'',
      schema_type = lit ''CollectionPage'',
      schema_name = lit ''Discover Our Products'',
      schema_description =
        lit ''Browse a curated list of demo products rendered on a server-side Appscrip PLP implementation.'',
      mainEntity = \<lparr>list_type = lit ''ItemList'', itemListElement = items\<rparr>\<rparr>"

definition schema :: "'n Product list \<Rightarrow> ListItem list CollectionPage" where
  "schema products = schema_with (Array_map_indexed list_item products)"

subsection \<open>The markup\<close>

text \<open>
  Of the returned markup the model keeps what depends on the products: the JSON-LD
  document handed to the script element, one list item per category, the subtitle of the
  grid, and one card per product. \<^verbatim>\<open>price.toFixed(2)\<close> is floating-point formatting of
  the runtime and is taken as a parameter.
\<close>

record FilterItem =
  item_key :: js_string
  item_value :: js_string
  item_label :: js_string

record Card =
  card_key :: int
  aria_label :: js_string
  image_src :: js_string
  image_alt :: js_string
  cardTitle :: js_string
  cardCategory :: js_string
  cardPrice :: js_string

record Page =
  page_schema :: "ListItem list CollectionPage"
  page_filterList :: "FilterItem list"
  page_gridSubtitle :: js_string
  page_grid :: "Card list"

definition filterItem :: "js_string \<Rightarrow> FilterItem" where
  "filterItem c = \<lparr>item_key = c, item_value = c, item_label = c\<rparr>"

definition filterList :: "js_string list \<Rightarrow> FilterItem list" where
  "filterList cs = map filterItem cs"

definition gridSubtitle :: "'n Product list \<Rightarrow> js_string" where
  "gridSubtitle products =
     Number_toString (int (length products)) @ lit '' items from Fake Store API''"

definition card :: "('n \<Rightarrow> nat \<Rightarrow> js_string) \<Rightarrow> 'n Product \<Rightarrow> Card" where
  "card toFixed product =
     \<lparr>card_key = id product,
      aria_label = title product,
      image_src = image product,
      image_alt = title product @ lit '' product image'',
      cardTitle = title product,
      cardCategory = category product,
      cardPrice = lit ''$'' @ toFixed (price product) 2\<rparr>"

definition grid :: "('n \<Rightarrow> nat \<Rightarrow> js_string) \<Rightarrow> 'n Product list \<Rightarrow> Card list" where
  "grid toFixed products = map (card toFixed) products"

definition render :: "('n \<Rightarrow> nat \<Rightarrow> js_string) \<Rightarrow> 'n Product list \<Rightarrow> Page" where
  "render toFixed products =
     \<lparr>page_schema = schema products,
      page_filterList = filterList (categories products),
      page_gridSubtitle = gridSubtitle products,
      page_grid = grid toFixed products\<rparr>"

subsection \<open>Fetching the catalog\<close>

text \<open>
  \<^verbatim>\<open>fetch\<close> belongs to the runtime. The model takes the network as a state: what the
  upstream answers to a request now (a rejection of the promise, or a response), and the
  requests issued so far. A response has the flag \<^verbatim>\<open>ok\<close> and the outcome of
  \<^verbatim>\<open>response.json()\<close>: a rejection, or the parsed body. The exceptions of the runtime
  are a type parameter.

  The source types the parsed body as \<^verbatim>\<open>Product[]\<close> and does not check it. Of the values
  that a body can be, the model distinguishes the arrays from all others (\<^verbatim>\<open>null\<close>, a
  boolean, a number, a string, an object such as \<^verbatim>\<open>{"message": "rate limited"}\<close>). Of
  the arrays it covers those whose elements are \<^verbatim>\<open>null\<close> or objects with \<^verbatim>\<open>id\<close>,
  \<^verbatim>\<open>title\<close>, \<^verbatim>\<open>description\<close>, \<^verbatim>\<open>category\<close> and \<^verbatim>\<open>image\<close> as typed; the \<^verbatim>\<open>price\<close>
  of such an object is a number, or \<open>None\<close> when it is anything else (absent, \<^verbatim>\<open>null\<close>,
  a string).
\<close>

datatype 'n element = Null | Object "'n option Product"

datatype 'n json = NotArray | Array "'n element list"

record request =
  request_url :: js_string
  request_init :: "(string \<times> js_string) list"

record ('x, 'n) Response =
  ok :: bool
  json :: "'x + 'n json"

record ('x, 'n) world =
  upstream :: "request \<Rightarrow> 'x + ('x, 'n) Response"
  issued :: "request list"

text \<open>
  A failure is the \<^verbatim>\<open>Error\<close> that the source constructs, a rejection of the runtime
  passed on, or a \<^verbatim>\<open>TypeError\<close> thrown by an operation of \<^verbatim>\<open>Home\<close> on the body.
\<close>

datatype 'x failure = Error js_string | Rejected 'x | TypeError

definition fetch ::
  "request \<Rightarrow> ('x, 'n) world \<Rightarrow> ('x + ('x, 'n) Response) \<times> ('x, 'n) world" where
  "fetch rq w = (upstream w rq, w\<lparr>issued := issued w @ [rq]\<rparr>)"

definition catalog_request :: request where
  "catalog_request =
     \<lparr>request_url = lit ''https://fakestoreapi.com/products'',
      request_init = [(''cache'', lit ''no-store'')]\<rparr>"

definition getProducts ::
  "('x, 'n) world \<Rightarrow> ('x failure + 'n json) \<times> ('x, 'n) world" where
  "getProducts w =
     (case fetch catalog_request w of
        (Inl x, w') \<Rightarrow> (Inl (Rejected x), w')
      | (Inr response, w') \<Rightarrow>
          if \<not> ok response
          then (Inl (Error (lit ''Failed to load products from Fake Store API'')), w')
          else (case json response of
                  Inl x \<Rightarrow> (Inl (Rejected x), w')
                | Inr products \<Rightarrow> (Inr products, w')))"

text \<open>
  What \<^verbatim>\<open>Home\<close> does with the body throws a \<^verbatim>\<open>TypeError\<close> in three places:
  \<^verbatim>\<open>products.map\<close> when the body is not an array (line 29), \<^verbatim>\<open>p.category\<close> when an
  element is \<^verbatim>\<open>null\<close> (line 29), and \<^verbatim>\<open>product.price.toFixed(2)\<close> when a price is not
  a number (line 196). \<open>products_of\<close> is the product list that the body is when none of
  them throws.
\<close>

definition product_of :: "'n element \<Rightarrow> 'n Product option" where
  "product_of e =
     (case e of
        Null \<Rightarrow> None
      | Object ob \<Rightarrow>
          (case price ob of
             None \<Rightarrow> None
           | Some n \<Rightarrow>
               Some \<lparr>id = id ob, title = title ob, price = n, description = description ob,
                     category = category ob, image = image ob\<rparr>))"

definition products_of :: "'n json \<Rightarrow> 'n Product list option" where
  "products_of body =
     (case body of
        NotArray \<Rightarrow> None
      | Array elements \<Rightarrow> those (map product_of elements))"

text \<open>
  \<^verbatim>\<open>Home\<close> awaits \<^verbatim>\<open>getProducts\<close> outside any \<^verbatim>\<open>try\<close>, and nothing catches what the
  rest of it throws: either failure is the failure of the render.
\<close>

definition Home ::
  "('n \<Rightarrow> nat \<Rightarrow> js_string) \<Rightarrow> ('x, 'n) world \<Rightarrow> ('x failure + Page) \<times> ('x, 'n) world" where
  "Home toFixed w =
     (case getProducts w of
        (Inl e, w') \<Rightarrow> (Inl e, w')
      | (Inr body, w') \<Rightarrow>
          (case products_of body of
             None \<Rightarrow> (Inl TypeError, w')
           | Some products \<Rightarrow> (Inr (render toFixed products), w')))"

subsection \<open>The derivations on a store\<close>

text \<open>
  Arrays and sets are objects: a variable holds an address, and \<^verbatim>\<open>sort\<close> writes into
  the array it is called on. The store is the list of the allocated objects, an address
  is an index into it, and a new object goes to the end. An operation on an address that
  holds no object of the kind it needs has no result (the source's types exclude it).
  The products of an array are only read, so the array cell holds them by value.
\<close>

datatype 'n cell =
  ProductArray "'n Product list"
| StringArray "js_string list"
| StringSet "js_string list"
| ItemArray "ListItem list"

type_synonym addr = nat
type_synonym 'n store = "'n cell list"

definition alloc :: "'n store \<Rightarrow> 'n cell \<Rightarrow> addr \<times> 'n store" where
  "alloc h c = (length h, h @ [c])"

definition lookup :: "'n store \<Rightarrow> addr \<Rightarrow> 'n cell option" where
  "lookup h a = (if a < length h then Some (h ! a) else None)"

definition st_map_category :: "addr \<Rightarrow> 'n store \<Rightarrow> (addr \<times> 'n store) option" where
  "st_map_category a h =
     (case lookup h a of
        Some (ProductArray ps) \<Rightarrow> Some (alloc h (StringArray (map category ps)))
      | _ \<Rightarrow> None)"

definition st_new_Set :: "addr \<Rightarrow> 'n store \<Rightarrow> (addr \<times> 'n store) option" where
  "st_new_Set a h =
     (case lookup h a of
        Some (StringArray xs) \<Rightarrow> Some (alloc h (StringSet (new_Set xs)))
      | _ \<Rightarrow> None)"

definition st_Array_from :: "addr \<Rightarrow> 'n store \<Rightarrow> (addr \<times> 'n store) option" where
  "st_Array_from a h =
     (case lookup h a of
        Some (StringSet s) \<Rightarrow> Some (alloc h (StringArray (Array_from s)))
      | _ \<Rightarrow> None)"

text \<open>\<^verbatim>\<open>sort\<close> sorts in place and returns the array it was called on.\<close>

definition st_Array_sort :: "addr \<Rightarrow> 'n store \<Rightarrow> (addr \<times> 'n store) option" where
  "st_Array_sort a h =
     (case lookup h a of
        Some (StringArray xs) \<Rightarrow> Some (a, h[a := StringArray (Array_sort xs)])
      | _ \<Rightarrow> None)"

definition st_map_list_item :: "addr \<Rightarrow> 'n store \<Rightarrow> (addr \<times> 'n store) option" where
  "st_map_list_item a h =
     (case lookup h a of
        Some (ProductArray ps) \<Rightarrow> Some (alloc h (ItemArray (Array_map_indexed list_item ps)))
      | _ \<Rightarrow> None)"

text \<open>
  Line 29: from the address of the product array to the address of \<^verbatim>\<open>categories\<close>,
  through the mapped array and the set of the expression; the array that
  \<^verbatim>\<open>Array.from\<close> allocates is the one that is sorted and returned.
\<close>

definition st_categories :: "addr \<Rightarrow> 'n store \<Rightarrow> (addr \<times> 'n store) option" where
  "st_categories products h =
     (case st_map_category products h of
        None \<Rightarrow> None
      | Some (mapped, h1) \<Rightarrow>
     (case st_new_Set mapped h1 of
        None \<Rightarrow> None
      | Some (the_set, h2) \<Rightarrow>
     (case st_Array_from the_set h2 of
        None \<Rightarrow> None
      | Some (array, h3) \<Rightarrow> st_Array_sort array h3)))"

text \<open>
  Lines 31 to 46: the document, whose \<open>itemListElement\<close> is the address of the new array
  of entries.
\<close>

definition st_schema :: "addr \<Rightarrow> 'n store \<Rightarrow> (addr CollectionPage \<times> 'n store) option" where
  "st_schema products h =
     (case st_map_list_item products h of
        None \<Rightarrow> None
      | Some (items, h1) \<Rightarrow> Some (schema_with items, h1))"

text \<open>Both, in the order of \<^verbatim>\<open>Home\<close>.\<close>

definition derivations ::
  "addr \<Rightarrow> 'n store \<Rightarrow> ((addr \<times> addr CollectionPage) \<times> 'n store) option" where
  "derivations products h =
     (case st_categories products h of
        None \<Rightarrow> None
      | Some (cats, h1) \<Rightarrow>
     (case st_schema products h1 of
        None \<Rightarrow> None
      | Some (doc, h2) \<Rightarrow> Some ((cats, doc), h2)))"

subsection \<open>Decimal representations\<close>

text \<open>
  What it means for a string to be the decimal representation of an integer, stated
  apart from \<open>Number_toString\<close>: an optional minus sign, then digits without a leading
  zero (the single digit \<open>0\<close> apart) whose value in base ten is the magnitude.
\<close>

definition is_digit :: "16 word \<Rightarrow> bool" where
  "is_digit c = (48 \<le> c \<and> c \<le> 57)"

definition digits_value :: "js_string \<Rightarrow> nat" where
  "digits_value s = foldl (\<lambda>acc c. 10 * acc + (unat c - 48)) 0 s"

definition decimal_nat :: "nat \<Rightarrow> js_string \<Rightarrow> bool" where
  "decimal_nat n s =
     (s \<noteq> [] \<and> list_all is_digit s \<and> (length s = 1 \<or> hd s \<noteq> 48) \<and> digits_value s = n)"

definition decimal_representation :: "int \<Rightarrow> js_string \<Rightarrow> bool" where
  "decimal_representation n s =
     (case s of
        [] \<Rightarrow> False
      | c # cs \<Rightarrow>
          if c = 45 then n < 0 \<and> decimal_nat (nat (- n)) cs
          else 0 \<le> n \<and> decimal_nat (nat n) s)"

subsection \<open>Sample inputs\<close>

text \<open>
  The two products of the specification's scenario, with empty description and image; a
  store that holds their array at address 0; two products whose \<open>id\<close>s, \<open>10 ^ 21\<close> and
  \<open>2 ^ 60\<close>, are numbers but no safe integers.
\<close>

definition sample_products :: "real Product list" where
  "sample_products =
     [\<lparr>id = 1, title = lit ''A'', price = 9.5, description = [], category = lit ''x'',
       image = []\<rparr>,
      \<lparr>id = 2, title = lit ''B'', price = 20, description = [], category = lit ''y'',
       image = []\<rparr>]"

definition sample_store :: "real store" where
  "sample_store = [ProductArray sample_products]"

definition unsafe_id_products :: "real Product list" where
  "unsafe_id_products =
     [\<lparr>id = 1000000000000000000000, title = lit ''A'', price = 9.5, description = [],
       category = lit ''x'', image = []\<rparr>,
      \<lparr>id = 1152921504606846976, title = lit ''B'', price = 20, description = [],
       category = lit ''y'', image = []\<rparr>]"

text \<open>
  The body that is the array of the two products. A network whose upstream answers every
  request with a non-success response, although its body is that array; one whose
  upstream answers with a success response whose body is not an array; one whose
  upstream answers with a success response whose body is an array of one product
  without a price.
\<close>

definition sample_body :: "real json" where
  "sample_body =
     Array
       [Object \<lparr>id = 1, title = lit ''A'', price = Some 9.5, description = [],
                category = lit ''x'', image = []\<rparr>,
        Object \<lparr>id = 2, title = lit ''B'', price = Some 20, description = [],
                category = lit ''y'', image = []\<rparr>]"

definition failing_response :: "(unit, real) Response" where
  "failing_response = \<lparr>ok = False, json = Inr sample_body\<rparr>"

definition failing_world :: "(unit, real) world" where
  "failing_world = \<lparr>upstream = (\<lambda>rq. Inr failing_response), issued = []\<rparr>"

definition rate_limited_response :: "(unit, real) Response" where
  "rate_limited_response = \<lparr>ok = True, json = Inr NotArray\<rparr>"

definition rate_limited_world :: "(unit, real) world" where
  "rate_limited_world = \<lparr>upstream = (\<lambda>rq. Inr rate_limited_response), issued = []\<rparr>"

definition priceless_response :: "(unit, real) Response" where
  "priceless_response =
     \<lparr>ok = True,
      json = Inr (Array [Object \<lparr>id = 1, title = lit ''A'', price = None, description = [],
                                 category = lit ''x'', image = []\<rparr>])\<rparr>"

definition priceless_world :: "(unit, real) world" where
  "priceless_world = \<lparr>upstream = (\<lambda>rq. Inr priceless_response), issued = []\<rparr>"

section \<open>Properties\<close>

subsection \<open>Strings are ordered lexicographically\<close>

lemma string_less_iff: "string_less a b \<longleftrightarrow> a < b"
  by (induction a b rule: string_less.induct) auto

lemma string_less_lexord: "string_less a b \<longleftrightarrow> (a, b) \<in> lexord {(u, v). u < v}"
  by (simp add: string_less_iff list_less_def)

subsection \<open>Sorting\<close>

lemma sort_insert_insort: "sort_insert x ys = insort x ys"
  by (induction ys) (auto simp: string_less_iff)

lemma Array_sort_sort: "Array_sort xs = sort xs"
  by (induction xs) (simp_all add: Array_sort_def sort_insert_insort)

subsection \<open>Sets\<close>

lemma set_foldl_Set_add: "set (foldl Set_add acc xs) = set acc \<union> set xs"
  by (induction xs arbitrary: acc) (auto simp: Set_add_def)

lemma distinct_foldl_Set_add: "distinct acc \<Longrightarrow> distinct (foldl Set_add acc xs)"
  by (induction xs arbitrary: acc) (auto simp: Set_add_def)

lemma set_new_Set: "set (new_Set xs) = set xs"
  by (simp add: new_Set_def set_foldl_Set_add)

lemma distinct_new_Set: "distinct (new_Set xs)"
  by (simp add: new_Set_def distinct_foldl_Set_add)

subsection \<open>The category list\<close>

lemma categories_sort: "categories L = sort (new_Set (map category L))"
  by (simp add: categories_def Array_from_def Array_sort_sort)

text \<open>
  Claim C1. For every product list \<open>L\<close>, \<open>categories L\<close> holds exactly the category
  strings that occur in \<open>L\<close>, holds none of them twice, and is sorted ascending in the
  lexicographic order of code units: each entry is \<open>string_less\<close> than every later one.
\<close>

theorem categories_distinct_sorted:
  "set (categories L) = category ` set L
   \<and> distinct (categories L)
   \<and> sorted_wrt string_less (categories L)
   \<and> sorted_wrt (\<lambda>a b. (a, b) \<in> lexord {(u, v). u < v}) (categories L)"
proof -
  have s: "set (categories L) = category ` set L"
    by (simp add: categories_sort set_new_Set)
  have d: "distinct (categories L)"
    by (simp add: categories_sort distinct_new_Set)
  have "sorted (categories L)"
    by (simp add: categories_sort)
  with d have "sorted_wrt (<) (categories L)"
    by (simp add: strict_sorted_iff)
  then have l: "sorted_wrt string_less (categories L)"
    by (simp add: string_less_iff [abs_def])
  then have "sorted_wrt (\<lambda>a b. (a, b) \<in> lexord {(u, v). u < v}) (categories L)"
    by (simp add: string_less_lexord [abs_def])
  with s d l show ?thesis by simp
qed

subsection \<open>Decimal digits\<close>

lemma unat_digit_unit: "d < 10 \<Longrightarrow> unat (digit_unit d) = 48 + d"
  by (simp only: digit_unit_def unat_of_nat) simp

lemma is_digit_digit_unit: "d < 10 \<Longrightarrow> is_digit (digit_unit d)"
  by (simp add: is_digit_def word_le_nat_alt unat_digit_unit)

lemma digits_not_Nil: "digits n \<noteq> []"
  by (subst digits.simps) simp

lemma digits_all_digits: "list_all is_digit (digits n)"
  by (induction n rule: digits.induct) (subst digits.simps, simp add: is_digit_digit_unit)

lemma digits_value_digits: "digits_value (digits n) = n"
  by (induction n rule: digits.induct)
    (subst digits.simps, simp add: digits_value_def unat_digit_unit)

lemma hd_digits_zero: "hd (digits n) = 48 \<Longrightarrow> n = 0"
proof (induction n rule: digits.induct)
  case (1 n)
  show ?case
  proof (cases "n < 10")
    case True
    with "1.prems" have "digit_unit n = 48" by (subst (asm) digits.simps) simp
    then have "unat (digit_unit n) = 48" by simp
    with True show ?thesis by (simp add: unat_digit_unit)
  next
    case False
    with "1.prems" have "hd (digits (n div 10)) = 48"
      by (subst (asm) digits.simps) (simp add: digits_not_Nil)
    with False "1.IH" have "n div 10 = 0" by simp
    with False show ?thesis by simp
  qed
qed

lemma length_digits_zero: "length (digits 0) = 1"
  by (simp add: digits.simps)

lemma decimal_nat_digits: "decimal_nat n (digits n)"
proof -
  have "length (digits n) = 1 \<or> hd (digits n) \<noteq> 48"
    using hd_digits_zero [of n] length_digits_zero by blast
  then show ?thesis
    by (simp add: decimal_nat_def digits_not_Nil digits_all_digits digits_value_digits)
qed

lemma hd_digits_not_minus: "hd (digits n) \<noteq> 45"
proof -
  from digits_all_digits [of n] digits_not_Nil [of n] have "is_digit (hd (digits n))"
    by (cases "digits n") simp_all
  then have "48 \<le> hd (digits n)"
    by (simp add: is_digit_def)
  then show ?thesis
    by (auto simp: word_le_nat_alt)
qed

subsection \<open>The strings of numbers\<close>

lemma excess_bits_small: "v < 2 ^ 53 \<Longrightarrow> excess_bits v = 0"
  by (subst excess_bits.simps) simp

lemma round_double_small: "v < 2 ^ 53 \<Longrightarrow> round_double v = v"
  by (simp add: round_double_def excess_bits_small)

lemma excess_bits_large:
  "2 ^ 53 \<le> v \<Longrightarrow> 0 < excess_bits v \<and> 2 ^ 52 \<le> v div 2 ^ excess_bits v"
proof (induction v rule: excess_bits.induct)
  case (1 v)
  from "1.prems" have e: "excess_bits v = Suc (excess_bits (v div 2))"
    by (subst excess_bits.simps) simp
  show ?case
  proof (cases "v div 2 < 2 ^ 53")
    case True
    then have "excess_bits (v div 2) = 0"
      by (rule excess_bits_small)
    with e "1.prems" show ?thesis
      by simp
  next
    case False
    with "1.IH" "1.prems" have "2 ^ 52 \<le> (v div 2) div 2 ^ excess_bits (v div 2)"
      by simp
    with e show ?thesis
      by (simp add: div_mult2_eq)
  qed
qed

lemma round_double_large:
  assumes "2 ^ 53 \<le> v"
  shows "2 ^ 53 \<le> round_double v"
proof -
  let ?sh = "excess_bits v"
  let ?q = "v div 2 ^ ?sh"
  from excess_bits_large [OF assms] have s: "0 < ?sh" and q: "2 ^ 52 \<le> ?q"
    by simp_all
  from s have "(2::nat) ^ 1 \<le> 2 ^ ?sh"
    by (intro power_increasing) simp_all
  with q have "(2::nat) ^ 52 * 2 ^ 1 \<le> ?q * 2 ^ ?sh"
    by (rule mult_le_mono)
  then have l: "2 ^ 53 \<le> ?q * 2 ^ ?sh"
    by simp
  have "?q * 2 ^ ?sh \<le> round_double v"
    by (simp add: round_double_def Let_def)
  with l show ?thesis
    by (rule order_trans)
qed

lemma round_double_eq_small:
  assumes "x < 2 ^ 53"
  shows "round_double v = x \<longleftrightarrow> v = x"
proof (cases "v < 2 ^ 53")
  case True
  then show ?thesis by (simp add: round_double_small)
next
  case False
  then have "2 ^ 53 \<le> round_double v"
    by (intro round_double_large) simp
  with assms False show ?thesis
    by auto
qed

lemma shortest_from_step:
  assumes "x < 2 ^ 53" and "\<not> d \<le> k"
  shows "shortest_from x d k =
     (if (x div 10 ^ (d - k)) * 10 ^ (d - k) = x then x else shortest_from x d (Suc k))"
proof -
  define t :: nat where "t = 10 ^ (d - k)"
  define lo where "lo = (x div t) * t"
  define hi where "hi = lo + t"
  have "x mod t < t"
    by (simp add: t_def)
  with div_mult_mod_eq [of x t] have "x < hi"
    unfolding hi_def lo_def by linarith
  with assms(1) have h: "round_double hi \<noteq> x"
    by (simp add: round_double_eq_small)
  from assms(1) have l: "round_double lo = x \<longleftrightarrow> lo = x"
    by (rule round_double_eq_small)
  have "shortest_from x d k =
     (if round_double lo = x \<and> round_double hi = x
      then (if x - lo < hi - x \<or> (x - lo = hi - x \<and> even (lo div t)) then lo else hi)
      else if round_double lo = x then lo
      else if round_double hi = x then hi
      else shortest_from x d (Suc k))"
    using assms(2) by (subst shortest_from.simps) (simp add: Let_def t_def lo_def hi_def)
  also have "\<dots> = (if lo = x then x else shortest_from x d (Suc k))"
    using h l by auto
  finally show ?thesis
    by (simp add: lo_def t_def)
qed

lemma shortest_from_small:
  assumes "x < 2 ^ 53"
  shows "shortest_from x d k = x"
proof (induction "d - k" arbitrary: k)
  case 0
  then show ?case
    by (subst shortest_from.simps) simp
next
  case (Suc n)
  then have "\<not> d \<le> k" and "n = d - Suc k"
    by simp_all
  with Suc.hyps(1) [of "Suc k"] shortest_from_step [OF assms, of d k] show ?case
    by simp
qed

lemma decimal_length_le: "0 < n \<Longrightarrow> v < 10 ^ n \<Longrightarrow> decimal_length v \<le> n"
proof (induction v arbitrary: n rule: decimal_length.induct)
  case (1 v)
  show ?case
  proof (cases "v < 10")
    case True
    with "1.prems" show ?thesis
      by (subst decimal_length.simps) simp
  next
    case False
    with "1.prems" obtain m where n: "n = Suc m" and m: "0 < m"
      by (cases n; cases "n - 1") auto
    with "1.prems" have "v div 10 < 10 ^ m"
      by (simp add: less_mult_imp_div_less mult.commute)
    with False m "1.IH" have "decimal_length (v div 10) \<le> m"
      by simp
    with False n show ?thesis
      by (subst decimal_length.simps) simp
  qed
qed

lemma positive_toString_small:
  assumes "x < 2 ^ 53"
  shows "positive_toString x = digits x"
proof -
  from assms have "x < 10 ^ 21"
    by simp
  then have "decimal_length x \<le> 21"
    by (intro decimal_length_le) simp_all
  with assms show ?thesis
    by (simp add: positive_toString_def shortest_def shortest_from_small)
qed

lemma digits_zero: "digits 0 = lit ''0''"
  by (simp add: digits.simps digit_unit_def lit_def)

lemma Number_toString_safe:
  assumes "isSafeInteger n"
  shows "Number_toString n = (if n < 0 then lit ''-'' @ digits (nat (- n)) else digits (nat n))"
proof -
  from assms have "nat (- n) < 2 ^ 53" and "nat n < 2 ^ 53"
    by (simp_all add: isSafeInteger_def)
  then show ?thesis
    by (simp add: Number_toString_def positive_toString_small digits_zero)
qed

lemma isSafeInteger_is_Number: "isSafeInteger n \<Longrightarrow> is_Number n"
proof -
  assume "isSafeInteger n"
  then have "nat \<bar>n\<bar> < 2 ^ 53" and "\<bar>n\<bar> < 2 ^ 1024"
    by (simp_all add: isSafeInteger_def)
  then show ?thesis
    by (simp add: is_Number_def round_double_small)
qed

lemma Number_toString_small_values:
  "Number_toString 0 = lit ''0''" "Number_toString 1 = lit ''1''"
  "Number_toString 2 = lit ''2''"
  by (simp_all add: Number_toString_safe isSafeInteger_def digits.simps digit_unit_def lit_def)

lemma decimal_representation_Number_toString:
  assumes "isSafeInteger n"
  shows "decimal_representation n (Number_toString n)"
proof (cases "n < 0")
  case True
  with assms show ?thesis
    by (simp add: Number_toString_safe decimal_representation_def lit_def decimal_nat_digits)
next
  case False
  obtain c cs where d: "digits (nat n) = c # cs"
    using digits_not_Nil [of "nat n"] by (cases "digits (nat n)") simp_all
  with hd_digits_not_minus [of "nat n"] have "c \<noteq> 45" by simp
  with assms False d decimal_nat_digits [of "nat n"] show ?thesis
    by (simp add: Number_toString_safe decimal_representation_def)
qed

text \<open>The number \<open>10 ^ 21\<close> is printed in exponent notation.\<close>

lemma decimal_length_huge: "decimal_length 1000000000000000000000 = 22"
  by (simp add: decimal_length.simps)

lemma round_double_huge: "round_double 1000000000000000000000 = 1000000000000000000000"
  and "round_double 2000000000000000000000 = 2000000000000000000000"
  by (simp_all add: round_double_def excess_bits.simps)

lemma shortest_huge: "shortest 1000000000000000000000 = 1000000000000000000000"
  by (simp add: shortest_def decimal_length_huge shortest_from.simps round_double_huge)

lemma strip_zeros_huge: "strip_zeros 1000000000000000000000 = 1"
  by (simp add: strip_zeros.simps)

lemma Number_toString_huge: "Number_toString 1000000000000000000000 = lit ''1e+21''"
  by (simp add: Number_toString_def positive_toString_def shortest_huge decimal_length_huge
      exponential_def strip_zeros_huge digits.simps digit_unit_def lit_def)

lemma is_Number_huge: "is_Number 1000000000000000000000"
  by (simp add: is_Number_def round_double_huge)

text \<open>
  The number \<open>2 ^ 60\<close> is printed with the sixteen significant digits that suffice to
  tell it from its neighbours.
\<close>

lemma shortest_from_skip:
  assumes "\<not> d \<le> k"
    and "round_double ((x div 10 ^ (d - k)) * 10 ^ (d - k)) \<noteq> x"
    and "round_double ((x div 10 ^ (d - k)) * 10 ^ (d - k) + 10 ^ (d - k)) \<noteq> x"
  shows "shortest_from x d k = shortest_from x d (Suc k)"
  using assms by (subst shortest_from.simps) (simp add: Let_def)

lemma shortest_from_hi:
  assumes "\<not> d \<le> k"
    and "round_double ((x div 10 ^ (d - k)) * 10 ^ (d - k)) \<noteq> x"
    and "round_double ((x div 10 ^ (d - k)) * 10 ^ (d - k) + 10 ^ (d - k)) = x"
  shows "shortest_from x d k = (x div 10 ^ (d - k)) * 10 ^ (d - k) + 10 ^ (d - k)"
  using assms by (subst shortest_from.simps) (simp add: Let_def)

lemma decimal_length_rounded: "decimal_length 1152921504606846976 = 19"
  by (simp add: decimal_length.simps)

lemma shortest_rounded: "shortest 1152921504606846976 = 1152921504606847000"
proof -
  have s1: "shortest_from 1152921504606846976 19 1 = shortest_from 1152921504606846976 19 2"
  proof -
    have "shortest_from 1152921504606846976 19 1 = shortest_from 1152921504606846976 19 (Suc 1)"
      by (rule shortest_from_skip) (simp_all add: round_double_def excess_bits.simps)
    also have "Suc 1 = 2"
      by simp
    finally show ?thesis .
  qed
  have s2: "shortest_from 1152921504606846976 19 2 = shortest_from 1152921504606846976 19 3"
    using shortest_from_skip [of 19 2 1152921504606846976]
    by (simp add: round_double_def excess_bits.simps)
  have s3: "shortest_from 1152921504606846976 19 3 = shortest_from 1152921504606846976 19 4"
    using shortest_from_skip [of 19 3 1152921504606846976]
    by (simp add: round_double_def excess_bits.simps)
  have s4: "shortest_from 1152921504606846976 19 4 = shortest_from 1152921504606846976 19 5"
    using shortest_from_skip [of 19 4 1152921504606846976]
    by (simp add: round_double_def excess_bits.simps)
  have s5: "shortest_from 1152921504606846976 19 5 = shortest_from 1152921504606846976 19 6"
    using shortest_from_skip [of 19 5 1152921504606846976]
    by (simp add: round_double_def excess_bits.simps)
  have s6: "shortest_from 1152921504606846976 19 6 = shortest_from 1152921504606846976 19 7"
    using shortest_from_skip [of 19 6 1152921504606846976]
    by (simp add: round_double_def excess_bits.simps)
  have s7: "shortest_from 1152921504606846976 19 7 = shortest_from 1152921504606846976 19 8"
    using shortest_from_skip [of 19 7 1152921504606846976]
    by (simp add: round_double_def excess_bits.simps)
  have s8: "shortest_from 1152921504606846976 19 8 = shortest_from 1152921504606846976 19 9"
    using shortest_from_skip [of 19 8 1152921504606846976]
    by (simp add: round_double_def excess_bits.simps)
  have s9: "shortest_from 1152921504606846976 19 9 = shortest_from 1152921504606846976 19 10"
    using shortest_from_skip [of 19 9 1152921504606846976]
    by (simp add: round_double_def excess_bits.simps)
  have s10: "shortest_from 1152921504606846976 19 10 = shortest_from 1152921504606846976 19 11"
    using shortest_from_skip [of 19 10 1152921504606846976]
    by (simp add: round_double_def excess_bits.simps)
  have s11: "shortest_from 1152921504606846976 19 11 = shortest_from 1152921504606846976 19 12"
    using shortest_from_skip [of 19 11 1152921504606846976]
    by (simp add: round_double_def excess_bits.simps)
  have s12: "shortest_from 1152921504606846976 19 12 = shortest_from 1152921504606846976 19 13"
    using shortest_from_skip [of 19 12 1152921504606846976]
    by (simp add: round_double_def excess_bits.simps)
  have s13: "shortest_from 1152921504606846976 19 13 = shortest_from 1152921504606846976 19 14"
    using shortest_from_skip [of 19 13 1152921504606846976]
    by (simp add: round_double_def excess_bits.simps)
  have s14: "shortest_from 1152921504606846976 19 14 = shortest_from 1152921504606846976 19 15"
    using shortest_from_skip [of 19 14 1152921504606846976]
    by (simp add: round_double_def excess_bits.simps)
  have s15: "shortest_from 1152921504606846976 19 15 = shortest_from 1152921504606846976 19 16"
    using shortest_from_skip [of 19 15 1152921504606846976]
    by (simp add: round_double_def excess_bits.simps)
  have "shortest_from 1152921504606846976 19 16 = 1152921504606847000"
    using shortest_from_hi [of 19 16 1152921504606846976]
    by (simp add: round_double_def excess_bits.simps)
  with s1 s2 s3 s4 s5 s6 s7 s8 s9 s10 s11 s12 s13 s14 s15
  have "shortest_from 1152921504606846976 19 1 = 1152921504606847000"
    by (simp only:)
  then show ?thesis
    by (simp add: shortest_def decimal_length_rounded)
qed

lemma Number_toString_rounded:
  "Number_toString 1152921504606846976 = lit ''1152921504606847000''"
  by (simp add: Number_toString_def positive_toString_def shortest_rounded
      decimal_length.simps digits.simps digit_unit_def lit_def)

lemma is_Number_rounded: "is_Number 1152921504606846976"
  by (simp add: is_Number_def round_double_def excess_bits.simps)

subsection \<open>The JSON-LD document\<close>

lemma length_Array_map_indexed: "length (Array_map_indexed f xs) = length xs"
  by (simp add: Array_map_indexed_def)

lemma nth_Array_map_indexed: "i < length xs \<Longrightarrow> Array_map_indexed f xs ! i = f (xs ! i) i"
  by (simp add: Array_map_indexed_def nth_enumerate_eq)

lemma itemListElement_schema_with: "itemListElement (mainEntity (schema_with i)) = i"
  by (simp add: schema_with_def)

lemma itemListElement_schema:
  "itemListElement (mainEntity (schema L)) = Array_map_indexed list_item L"
  by (simp add: schema_def itemListElement_schema_with)

text \<open>
  Claim C2. For every product list \<open>L\<close>, \<open>itemListElement\<close> of the document has as many
  entries as \<open>L\<close>, in the order of \<open>L\<close>: the entry at index \<open>i\<close> (counted from 0) has
  position \<open>i + 1\<close>, the URL built from the \<open>id\<close> of the product at \<open>i\<close>, and that
  product's title as its name.
\<close>

theorem schema_entries:
  "length (itemListElement (mainEntity (schema L))) = length L
   \<and> (\<forall>i < length L.
        position (itemListElement (mainEntity (schema L)) ! i) = i + 1
        \<and> url (itemListElement (mainEntity (schema L)) ! i)
            = lit ''https://example.com/products/'' @ Number_toString (id (L ! i))
        \<and> name (itemListElement (mainEntity (schema L)) ! i) = title (L ! i))"
  by (simp add: itemListElement_schema length_Array_map_indexed nth_Array_map_indexed
      list_item_def)

theorem schema_entries_witness:
  "length (itemListElement (mainEntity (schema sample_products))) = 2
   \<and> position (itemListElement (mainEntity (schema sample_products)) ! 1) = 2
   \<and> url (itemListElement (mainEntity (schema sample_products)) ! 1)
       = lit ''https://example.com/products/2''
   \<and> name (itemListElement (mainEntity (schema sample_products)) ! 1) = lit ''B''"
proof -
  have n: "(1::nat) < length sample_products"
    by (simp add: sample_products_def)
  from schema_entries [of sample_products]
  have "length (itemListElement (mainEntity (schema sample_products))) = length sample_products"
    and "\<forall>i < length sample_products.
        position (itemListElement (mainEntity (schema sample_products)) ! i) = i + 1
        \<and> url (itemListElement (mainEntity (schema sample_products)) ! i)
            = lit ''https://example.com/products/'' @ Number_toString (id (sample_products ! i))
        \<and> name (itemListElement (mainEntity (schema sample_products)) ! i)
            = title (sample_products ! i)"
    by blast+
  with n have "length (itemListElement (mainEntity (schema sample_products))) = length sample_products
    \<and> position (itemListElement (mainEntity (schema sample_products)) ! 1) = 1 + 1
    \<and> url (itemListElement (mainEntity (schema sample_products)) ! 1)
            = lit ''https://example.com/products/'' @ Number_toString (id (sample_products ! 1))
    \<and> name (itemListElement (mainEntity (schema sample_products)) ! 1)
            = title (sample_products ! 1)"
    by blast
  then show ?thesis
    by (simp add: sample_products_def Number_toString_small_values) (simp add: lit_def)
qed

text \<open>
  Claim C8. For every product list \<open>L\<close> the fields of the document outside
  \<open>itemListElement\<close> are constants: the context is \<open>https://schema.org\<close>, the type
  \<open>CollectionPage\<close>, the name \<open>Discover Our Products\<close>, the description the fixed
  sentence of the source, the type of the main entity \<open>ItemList\<close>. The documents of two
  lists \<open>L\<close> and \<open>L'\<close> differ in \<open>itemListElement\<close> only.
\<close>

theorem schema_constant_fields:
  "schema_context (schema L) = lit ''https://schema.org''
   \<and> schema_type (schema L) = lit ''CollectionPage''
   \<and> schema_name (schema L) = lit ''Discover Our Products''
   \<and> schema_description (schema L) =
       lit ''Browse a curated list of demo products rendered on a server-side Appscrip PLP implementation.''
   \<and> list_type (mainEntity (schema L)) = lit ''ItemList''
   \<and> schema L = (schema L')\<lparr>mainEntity :=
        (mainEntity (schema L'))\<lparr>itemListElement := itemListElement (mainEntity (schema L))\<rparr>\<rparr>"
  by (simp add: schema_def schema_with_def)

text \<open>
  Claim C9, as stated, fails. The product with \<open>id\<close> \<open>10 ^ 21\<close>, a number, gets the URL
  \<open>https://example.com/products/1e+21\<close>, and \<open>1e+21\<close> is not the decimal representation
  of its \<open>id\<close>. The product with \<open>id\<close> \<open>2 ^ 60 = 1152921504606846976\<close>, a number, gets
  the URL \<open>https://example.com/products/1152921504606847000\<close>, whose digits are those
  of another integer.
\<close>

theorem item_url_decimal_counterexample:
  "is_Number (id (unsafe_id_products ! 0))
   \<and> url (itemListElement (mainEntity (schema unsafe_id_products)) ! 0)
       = lit ''https://example.com/products/'' @ lit ''1e+21''
   \<and> \<not> decimal_representation (id (unsafe_id_products ! 0)) (lit ''1e+21'')
   \<and> is_Number (id (unsafe_id_products ! 1))
   \<and> url (itemListElement (mainEntity (schema unsafe_id_products)) ! 1)
       = lit ''https://example.com/products/'' @ lit ''1152921504606847000''
   \<and> \<not> decimal_representation (id (unsafe_id_products ! 1)) (lit ''1152921504606847000'')"
proof -
  have i: "id (unsafe_id_products ! 0) = 1000000000000000000000"
    and j: "id (unsafe_id_products ! 1) = 1152921504606846976"
    by (simp_all add: unsafe_id_products_def)
  have n: "0 < length unsafe_id_products" "1 < length unsafe_id_products"
    by (simp_all add: unsafe_id_products_def)
  have u: "url (itemListElement (mainEntity (schema unsafe_id_products)) ! k)
       = lit ''https://example.com/products/'' @ Number_toString (id (unsafe_id_products ! k))"
    if "k < length unsafe_id_products" for k
    using that by (simp add: itemListElement_schema nth_Array_map_indexed list_item_def)
  from u [OF n(1)] i have "url (itemListElement (mainEntity (schema unsafe_id_products)) ! 0)
       = lit ''https://example.com/products/'' @ lit ''1e+21''"
    by (simp add: Number_toString_huge)
  moreover from u [OF n(2)] j
  have "url (itemListElement (mainEntity (schema unsafe_id_products)) ! 1)
       = lit ''https://example.com/products/'' @ lit ''1152921504606847000''"
    by (simp add: Number_toString_rounded)
  moreover have "\<not> decimal_representation 1000000000000000000000 (lit ''1e+21'')"
    by (simp add: decimal_representation_def decimal_nat_def is_digit_def lit_def)
  moreover have "\<not> decimal_representation 1152921504606846976 (lit ''1152921504606847000'')"
    by (simp add: decimal_representation_def decimal_nat_def is_digit_def digits_value_def
        lit_def)
  ultimately show ?thesis
    using i j is_Number_huge is_Number_rounded by simp
qed

text \<open>
  Claim C9, amended. For every product list \<open>L\<close> and every index \<open>i\<close> of it whose product
  has a safe integer as \<open>id\<close> (of magnitude at most \<open>2 ^ 53 - 1\<close>), the URL of the entry
  at \<open>i\<close> is \<open>https://example.com/products/\<close> followed by the string of that \<open>id\<close>,
  which is its decimal representation; the URL does not start with the origin of the
  catalog.
\<close>

theorem item_url_decimal:
  assumes "i < length L" and "isSafeInteger (id (L ! i))"
  shows "url (itemListElement (mainEntity (schema L)) ! i)
           = lit ''https://example.com/products/'' @ Number_toString (id (L ! i))
       \<and> decimal_representation (id (L ! i)) (Number_toString (id (L ! i)))
       \<and> \<not> prefix (lit ''https://fakestoreapi.com'')
             (url (itemListElement (mainEntity (schema L)) ! i))"
proof -
  from assms(1) have u: "url (itemListElement (mainEntity (schema L)) ! i)
           = lit ''https://example.com/products/'' @ Number_toString (id (L ! i))"
    by (simp add: itemListElement_schema nth_Array_map_indexed list_item_def)
  have "\<not> prefix (lit ''https://fakestoreapi.com'') (lit ''https://example.com/products/'' @ s)"
    for s
    by (simp add: lit_def)
  with u decimal_representation_Number_toString [OF assms(2)] show ?thesis
    by simp
qed

theorem item_url_decimal_witness:
  "1 < length sample_products \<and> isSafeInteger (id (sample_products ! 1))
   \<and> url (itemListElement (mainEntity (schema sample_products)) ! 1)
       = lit ''https://example.com/products/2''
   \<and> decimal_representation 2 (lit ''2'')"
proof -
  have n: "1 < length sample_products"
    by (simp add: sample_products_def)
  have s: "isSafeInteger (id (sample_products ! 1))"
    by (simp add: sample_products_def isSafeInteger_def)
  have "Number_toString (id (sample_products ! 1)) = lit ''2''"
    and "id (sample_products ! 1) = 2"
    by (simp_all add: sample_products_def Number_toString_small_values)
  with item_url_decimal [OF n s] n s show ?thesis
    by (simp add: lit_def)
qed

text \<open>
  Claim C6. For the list of the two products with ids 1 and 2, titles \<open>A\<close> and \<open>B\<close>,
  prices 9.5 and 20, categories \<open>x\<close> and \<open>y\<close>, and any descriptions and images, the
  category list is \<open>[x, y]\<close> and \<open>itemListElement\<close> is the entry with position 1 and name
  \<open>A\<close> followed by the entry with position 2 and name \<open>B\<close>.
\<close>

theorem scenario_two_products:
  "categories
     [\<lparr>id = 1, title = lit ''A'', price = 9.5 :: real, description = d1, category = lit ''x'',
       image = i1\<rparr>,
      \<lparr>id = 2, title = lit ''B'', price = 20, description = d2, category = lit ''y'',
       image = i2\<rparr>]
     = [lit ''x'', lit ''y'']
   \<and> itemListElement (mainEntity (schema
     [\<lparr>id = 1, title = lit ''A'', price = 9.5 :: real, description = d1, category = lit ''x'',
       image = i1\<rparr>,
      \<lparr>id = 2, title = lit ''B'', price = 20, description = d2, category = lit ''y'',
       image = i2\<rparr>]))
     = [\<lparr>item_type = lit ''ListItem'', position = 1,
         url = lit ''https://example.com/products/1'', name = lit ''A''\<rparr>,
        \<lparr>item_type = lit ''ListItem'', position = 2,
         url = lit ''https://example.com/products/2'', name = lit ''B''\<rparr>]"
proof -
  have "lit ''x'' \<noteq> lit ''y''" and "string_less (lit ''x'') (lit ''y'')"
    by (simp_all add: lit_def)
  then show ?thesis
    by (simp add: categories_def Array_sort_def Array_from_def new_Set_def Set_add_def
      itemListElement_schema Array_map_indexed_def enumerate_eq_zip upt_rec list_item_def
      Number_toString_small_values) (simp add: lit_def)
qed

subsection \<open>The empty list\<close>

text \<open>
  Claim C5, as stated, fails: for the empty product list the subtitle of the grid is not
  the string \<open>0 items\<close>.
\<close>

theorem empty_list_label_counterexample:
  "\<not> (categories ([] :: real Product list) = []
      \<and> grid (\<lambda>p d. []) ([] :: real Product list) = []
      \<and> gridSubtitle ([] :: real Product list) = lit ''0 items'')"
  by (simp add: gridSubtitle_def Number_toString_small_values lit_def)

text \<open>
  Claim C5, amended. For the empty product list the category list is empty, the filter
  panel lists no category, the grid holds no card, and the subtitle of the grid reads
  \<open>0 items from Fake Store API\<close>.
\<close>

theorem empty_list_page:
  "categories [] = []
   \<and> page_filterList (render toFixed []) = []
   \<and> grid toFixed [] = []
   \<and> page_grid (render toFixed []) = []
   \<and> gridSubtitle [] = lit ''0 items from Fake Store API''
   \<and> page_gridSubtitle (render toFixed []) = lit ''0 items from Fake Store API''"
  by (simp add: categories_def Array_sort_def Array_from_def new_Set_def render_def
      filterList_def grid_def gridSubtitle_def Number_toString_small_values lit_def)

subsection \<open>Fetching the catalog\<close>

lemma getProducts_cases:
  "getProducts w =
     ((case upstream w catalog_request of
         Inl x \<Rightarrow> Inl (Rejected x)
       | Inr r \<Rightarrow>
           if \<not> ok r then Inl (Error (lit ''Failed to load products from Fake Store API''))
           else (case json r of Inl x \<Rightarrow> Inl (Rejected x) | Inr products \<Rightarrow> Inr products)),
      w\<lparr>issued := issued w @ [catalog_request]\<rparr>)"
  by (simp add: getProducts_def fetch_def split: sum.splits)

lemma Home_cases:
  "Home toFixed w =
     ((case fst (getProducts w) of
         Inl e \<Rightarrow> Inl e
       | Inr body \<Rightarrow>
           (case products_of body of
              None \<Rightarrow> Inl TypeError
            | Some products \<Rightarrow> Inr (render toFixed products))),
      snd (getProducts w))"
  by (simp add: Home_def split: prod.splits sum.splits option.splits)

lemma products_of_sample_body: "products_of sample_body = Some sample_products"
  by (simp add: products_of_def sample_body_def product_of_def sample_products_def)

text \<open>
  Claim C3, as stated, fails: the core has other errors than the one of a non-success
  status. After a success response whose body is not an array, \<open>getProducts\<close> returns
  the body and \<open>Home\<close> fails with a \<open>TypeError\<close>; so it does when the body is an array
  of one product without a price.
\<close>

theorem only_error_kind_counterexample:
  "upstream rate_limited_world catalog_request = Inr rate_limited_response
   \<and> ok rate_limited_response
   \<and> fst (getProducts rate_limited_world) = Inr NotArray
   \<and> fst (Home (\<lambda>p d. []) rate_limited_world) = Inl TypeError
   \<and> upstream priceless_world catalog_request = Inr priceless_response
   \<and> ok priceless_response
   \<and> fst (Home (\<lambda>p d. []) priceless_world) = Inl TypeError"
  by (simp add: Home_cases getProducts_cases rate_limited_world_def rate_limited_response_def
      priceless_world_def priceless_response_def products_of_def product_of_def)

text \<open>
  Claim C3, amended. If the upstream answers the catalog request with a response that is
  not \<open>ok\<close>, then \<open>getProducts\<close> fails with the error of the source and so does \<open>Home\<close>:
  the result is the error, not a product list and not a page, whatever the body of the
  response holds. This is the only \<open>Error\<close> that the core raises itself, and it raises it
  only then. The render fails in three more ways: with the rejection of \<open>fetch\<close>, with
  the rejection of \<open>json\<close> after a response that is \<open>ok\<close>, and with a \<open>TypeError\<close> when the
  body of such a response is not an array of products that \<open>Home\<close> can use. When it is,
  \<open>Home\<close> returns the page of these products.
\<close>

theorem non_success_aborts_render:
  "(upstream w catalog_request = Inr response \<and> \<not> ok response \<longrightarrow>
      fst (getProducts w) = Inl (Error (lit ''Failed to load products from Fake Store API''))
      \<and> fst (Home toFixed w) = Inl (Error (lit ''Failed to load products from Fake Store API'')))
   \<and> (\<forall>s. fst (Home toFixed w) = Inl (Error s) \<longrightarrow>
        s = lit ''Failed to load products from Fake Store API''
        \<and> fst (getProducts w) = Inl (Error s)
        \<and> (\<exists>r. upstream w catalog_request = Inr r \<and> \<not> ok r))
   \<and> (\<forall>x. upstream w catalog_request = Inl x \<longrightarrow>
        fst (Home toFixed w) = Inl (Rejected x))
   \<and> (\<forall>r x. upstream w catalog_request = Inr r \<and> ok r \<and> json r = Inl x \<longrightarrow>
        fst (Home toFixed w) = Inl (Rejected x))
   \<and> (\<forall>r body. upstream w catalog_request = Inr r \<and> ok r \<and> json r = Inr body
          \<and> products_of body = None \<longrightarrow>
        fst (getProducts w) = Inr body \<and> fst (Home toFixed w) = Inl TypeError)
   \<and> (\<forall>r body products. upstream w catalog_request = Inr r \<and> ok r \<and> json r = Inr body
          \<and> products_of body = Some products \<longrightarrow>
        fst (Home toFixed w) = Inr (render toFixed products))"
proof (intro conjI impI allI)
  assume "upstream w catalog_request = Inr response \<and> \<not> ok response"
  then show g: "fst (getProducts w)
      = Inl (Error (lit ''Failed to load products from Fake Store API''))"
    by (simp add: getProducts_cases)
  then show "fst (Home toFixed w)
      = Inl (Error (lit ''Failed to load products from Fake Store API''))"
    by (simp add: Home_cases)
next
  fix s
  assume h: "fst (Home toFixed w) = Inl (Error s)"
  then show g: "fst (getProducts w) = Inl (Error s)"
    by (simp add: Home_cases split: sum.splits option.splits)
  then show "s = lit ''Failed to load products from Fake Store API''"
    by (auto simp: getProducts_cases split: sum.splits if_splits)
  from g show "\<exists>r. upstream w catalog_request = Inr r \<and> \<not> ok r"
    by (auto simp: getProducts_cases split: sum.splits if_splits)
next
  fix x
  assume "upstream w catalog_request = Inl x"
  then show "fst (Home toFixed w) = Inl (Rejected x)"
    by (simp add: Home_cases getProducts_cases)
next
  fix r x
  assume "upstream w catalog_request = Inr r \<and> ok r \<and> json r = Inl x"
  then show "fst (Home toFixed w) = Inl (Rejected x)"
    by (simp add: Home_cases getProducts_cases)
next
  fix r body
  assume a: "upstream w catalog_request = Inr r \<and> ok r \<and> json r = Inr body
    \<and> products_of body = None"
  then show "fst (getProducts w) = Inr body"
    by (simp add: getProducts_cases)
  with a show "fst (Home toFixed w) = Inl TypeError"
    by (simp add: Home_cases)
next
  fix r body products
  assume "upstream w catalog_request = Inr r \<and> ok r \<and> json r = Inr body
    \<and> products_of body = Some products"
  then show "fst (Home toFixed w) = Inr (render toFixed products)"
    by (simp add: Home_cases getProducts_cases)
qed

theorem non_success_aborts_render_witness:
  "upstream failing_world catalog_request = Inr failing_response \<and> \<not> ok failing_response
   \<and> json failing_response = Inr sample_body
   \<and> products_of sample_body = Some sample_products
   \<and> fst (getProducts failing_world)
       = Inl (Error (lit ''Failed to load products from Fake Store API''))
   \<and> fst (Home (\<lambda>p d. []) failing_world)
       = Inl (Error (lit ''Failed to load products from Fake Store API''))"
proof -
  have u: "upstream failing_world catalog_request = Inr failing_response"
    by (simp add: failing_world_def)
  have k: "\<not> ok failing_response" and j: "json failing_response = Inr sample_body"
    by (simp_all add: failing_response_def)
  from u k non_success_aborts_render [of failing_world failing_response "\<lambda>p d. []"]
  have "fst (getProducts failing_world)
       = Inl (Error (lit ''Failed to load products from Fake Store API''))
   \<and> fst (Home (\<lambda>p d. []) failing_world)
       = Inl (Error (lit ''Failed to load products from Fake Store API''))"
    by blast
  with u k j products_of_sample_body show ?thesis
    by blast
qed

text \<open>
  Claim C7. \<open>getProducts\<close> takes nothing but the network. It issues one request, always
  the same: the URL \<open>https://fakestoreapi.com/products\<close>, which has no query part, with
  the option \<open>cache: no-store\<close> and no method given (a GET). Every run of \<open>Home\<close> issues
  this request, and its result is computed from what the upstream answers to it in that
  run.
\<close>

theorem getProducts_fixed_request:
  "issued (snd (getProducts w)) = issued w @ [catalog_request]
   \<and> issued (snd (Home toFixed w)) = issued w @ [catalog_request]
   \<and> upstream (snd (Home toFixed w)) = upstream w
   \<and> request_url catalog_request = lit ''https://fakestoreapi.com/products''
   \<and> of_char CHR ''?'' \<notin> set (request_url catalog_request)
   \<and> request_init catalog_request = [(''cache'', lit ''no-store'')]
   \<and> map_of (request_init catalog_request) ''method'' = None
   \<and> fst (getProducts w) =
       (case upstream w catalog_request of
          Inl x \<Rightarrow> Inl (Rejected x)
        | Inr r \<Rightarrow>
            if ok r then (case json r of Inl x \<Rightarrow> Inl (Rejected x) | Inr products \<Rightarrow> Inr products)
            else Inl (Error (lit ''Failed to load products from Fake Store API'')))
   \<and> fst (Home toFixed w) =
       (case fst (getProducts w) of
          Inl e \<Rightarrow> Inl e
        | Inr body \<Rightarrow>
            (case products_of body of
               None \<Rightarrow> Inl TypeError
             | Some products \<Rightarrow> Inr (render toFixed products)))"
proof -
  have "of_char CHR ''?'' \<notin> set (request_url catalog_request)"
    by (simp add: catalog_request_def lit_def)
  moreover have "fst (getProducts w) =
       (case upstream w catalog_request of
          Inl x \<Rightarrow> Inl (Rejected x)
        | Inr r \<Rightarrow>
            if ok r then (case json r of Inl x \<Rightarrow> Inl (Rejected x) | Inr products \<Rightarrow> Inr products)
            else Inl (Error (lit ''Failed to load products from Fake Store API'')))"
    by (simp add: getProducts_cases split: sum.splits)
  moreover have "request_url catalog_request = lit ''https://fakestoreapi.com/products''"
    and "request_init catalog_request = [(''cache'', lit ''no-store'')]"
    and "map_of (request_init catalog_request) ''method'' = None"
    by (simp_all add: catalog_request_def)
  moreover have "issued (snd (getProducts w)) = issued w @ [catalog_request]"
    and "issued (snd (Home toFixed w)) = issued w @ [catalog_request]"
    and "upstream (snd (Home toFixed w)) = upstream w"
    by (simp_all add: Home_cases getProducts_cases)
  moreover have "fst (Home toFixed w) =
       (case fst (getProducts w) of
          Inl e \<Rightarrow> Inl e
        | Inr body \<Rightarrow>
            (case products_of body of
               None \<Rightarrow> Inl TypeError
             | Some products \<Rightarrow> Inr (render toFixed products)))"
    by (simp add: Home_cases)
  ultimately show ?thesis
    by blast
qed

subsection \<open>The derivations on a store\<close>

lemma lookup_append_old: "b < length h \<Longrightarrow> lookup (h @ cs) b = lookup h b"
  by (simp add: lookup_def nth_append)

lemma lookup_Some_length: "lookup h a = Some c \<Longrightarrow> a < length h"
  by (simp add: lookup_def split: if_splits)

lemma st_categories_eq:
  assumes "lookup h a = Some (ProductArray L)"
  shows "st_categories a h =
     Some (Suc (Suc (length h)),
           h @ [StringArray (map category L), StringSet (new_Set (map category L)),
                StringArray (categories L)])"
proof -
  from assms have a: "a < length h" by (rule lookup_Some_length)
  show ?thesis
    using assms a
    by (simp add: st_categories_def st_map_category_def st_new_Set_def st_Array_from_def
        st_Array_sort_def alloc_def lookup_def categories_def nth_append list_update_append)
qed

lemma st_schema_eq:
  assumes "lookup h a = Some (ProductArray L)"
  shows "st_schema a h =
     Some (schema_with (length h), h @ [ItemArray (Array_map_indexed list_item L)])"
  using assms by (simp add: st_schema_def st_map_list_item_def alloc_def)

lemma derivations_eq:
  assumes "lookup h a = Some (ProductArray L)"
  shows "derivations a h =
     Some ((Suc (Suc (length h)), schema_with (Suc (Suc (Suc (length h))))),
           h @ [StringArray (map category L), StringSet (new_Set (map category L)),
                StringArray (categories L), ItemArray (Array_map_indexed list_item L)])"
proof -
  from assms have a: "a < length h" by (rule lookup_Some_length)
  let ?h1 = "h @ [StringArray (map category L), StringSet (new_Set (map category L)),
                StringArray (categories L)]"
  from assms a have "lookup ?h1 a = Some (ProductArray L)"
    by (simp add: lookup_append_old)
  then have "st_schema a ?h1
      = Some (schema_with (length ?h1), ?h1 @ [ItemArray (Array_map_indexed list_item L)])"
    by (rule st_schema_eq)
  with st_categories_eq [OF assms] show ?thesis
    by (simp add: derivations_def)
qed

lemma derivations_result:
  assumes "lookup h a = Some (ProductArray L)"
  shows "\<exists>c i cs. derivations a h = Some ((c, schema_with i), h @ cs)
      \<and> length h \<le> c \<and> length h \<le> i
      \<and> lookup (h @ cs) c = Some (StringArray (categories L))
      \<and> lookup (h @ cs) i = Some (ItemArray (Array_map_indexed list_item L))"
proof -
  let ?cs = "[StringArray (map category L), StringSet (new_Set (map category L)),
              StringArray (categories L), ItemArray (Array_map_indexed list_item L)]"
  let ?c = "Suc (Suc (length h))"
  let ?i = "Suc (Suc (Suc (length h)))"
  have "lookup (h @ ?cs) ?c = Some (StringArray (categories L))"
    by (simp add: lookup_def nth_append)
  moreover have "lookup (h @ ?cs) ?i = Some (ItemArray (Array_map_indexed list_item L))"
    by (simp add: lookup_def nth_append)
  moreover have "length h \<le> ?c" and "length h \<le> ?i"
    by simp_all
  moreover note derivations_eq [OF assms]
  ultimately show ?thesis
    by blast
qed

lemma sample_store_products: "lookup sample_store 0 = Some (ProductArray sample_products)"
  by (simp add: sample_store_def lookup_def)

lemma categories_sample_products: "categories sample_products = [lit ''x'', lit ''y'']"
proof -
  have "lit ''x'' \<noteq> lit ''y''" and "string_less (lit ''x'') (lit ''y'')"
    and "\<not> string_less (lit ''y'') (lit ''x'')"
    by (simp_all add: lit_def)
  then show ?thesis
    by (simp add: sample_products_def categories_def Array_sort_def Array_from_def
        new_Set_def Set_add_def)
qed

text \<open>
  Claim C10. Run on a store whose address \<open>a\<close> holds the product array \<open>L\<close>, the two
  derivations return, and in the store they leave address \<open>a\<close> still holds \<open>L\<close>, as every
  object of the store before holds what it held: the sorted category array and the array
  of entries are objects that did not exist before, and they hold \<open>categories L\<close> and the
  \<open>itemListElement\<close> of \<open>schema L\<close>.
\<close>

theorem derivations_frame:
  assumes "lookup h a = Some (ProductArray L)"
  shows "\<exists>c s h'. derivations a h = Some ((c, s), h')
      \<and> lookup h' a = Some (ProductArray L)
      \<and> (\<forall>b < length h. lookup h' b = lookup h b)
      \<and> length h \<le> c \<and> length h \<le> itemListElement (mainEntity s)
      \<and> lookup h' c = Some (StringArray (categories L))
      \<and> lookup h' (itemListElement (mainEntity s))
          = Some (ItemArray (itemListElement (mainEntity (schema L))))"
proof -
  from assms have a: "a < length h" by (rule lookup_Some_length)
  from derivations_result [OF assms] obtain c i cs where
    d: "derivations a h = Some ((c, schema_with i), h @ cs)"
    and c: "length h \<le> c" and i: "length h \<le> i"
    and lc: "lookup (h @ cs) c = Some (StringArray (categories L))"
    and li: "lookup (h @ cs) i = Some (ItemArray (Array_map_indexed list_item L))"
    by blast
  from a assms have "lookup (h @ cs) a = Some (ProductArray L)"
    by (simp add: lookup_append_old)
  moreover have "\<forall>b < length h. lookup (h @ cs) b = lookup h b"
    by (simp add: lookup_append_old)
  moreover have "itemListElement (mainEntity (schema L)) = Array_map_indexed list_item L"
    by (rule itemListElement_schema)
  ultimately show ?thesis
    using d c i lc li by (simp add: itemListElement_schema_with)
qed

theorem derivations_frame_witness:
  "lookup sample_store 0 = Some (ProductArray sample_products)
   \<and> (\<exists>c s h'. derivations 0 sample_store = Some ((c, s), h')
        \<and> lookup h' 0 = Some (ProductArray sample_products)
        \<and> lookup h' c = Some (StringArray [lit ''x'', lit ''y'']))"
proof -
  from derivations_frame [OF sample_store_products] obtain c s h' where
    "derivations 0 sample_store = Some ((c, s), h')"
    and "lookup h' 0 = Some (ProductArray sample_products)"
    and "lookup h' c = Some (StringArray (categories sample_products))"
    by blast
  with sample_store_products show ?thesis
    by (simp add: categories_sample_products)
qed

text \<open>
  Claim C4. The derivations are functions of the product list (\<open>categories\<close> and \<open>schema\<close>
  are functions), and running them twice in a row on a store whose address \<open>a\<close> holds
  \<open>L\<close> gives the same output both times: both runs return, the second category array
  and the second array of entries hold what the first ones hold, namely \<open>categories L\<close>
  and the entries of \<open>schema L\<close>, the two documents agree in every other field, and the
  second run leaves the results of the first as they were.
\<close>

theorem derivations_twice:
  assumes "lookup h a = Some (ProductArray L)"
  shows "\<exists>c1 s1 h1 c2 s2 h2.
        derivations a h = Some ((c1, s1), h1) \<and> derivations a h1 = Some ((c2, s2), h2)
      \<and> lookup h1 c1 = Some (StringArray (categories L))
      \<and> lookup h2 c2 = lookup h1 c1
      \<and> lookup h1 (itemListElement (mainEntity s1))
          = Some (ItemArray (itemListElement (mainEntity (schema L))))
      \<and> lookup h2 (itemListElement (mainEntity s2))
          = lookup h1 (itemListElement (mainEntity s1))
      \<and> s2\<lparr>mainEntity := (mainEntity s2)\<lparr>itemListElement := itemListElement (mainEntity s1)\<rparr>\<rparr>
          = s1
      \<and> lookup h2 c1 = lookup h1 c1
      \<and> lookup h2 (itemListElement (mainEntity s1))
          = lookup h1 (itemListElement (mainEntity s1))"
proof -
  from assms have a: "a < length h" by (rule lookup_Some_length)
  from derivations_result [OF assms] obtain c1 i1 cs1 where
    d1: "derivations a h = Some ((c1, schema_with i1), h @ cs1)"
    and lc1: "lookup (h @ cs1) c1 = Some (StringArray (categories L))"
    and li1: "lookup (h @ cs1) i1 = Some (ItemArray (Array_map_indexed list_item L))"
    by blast
  let ?h1 = "h @ cs1"
  from a assms have a1: "lookup ?h1 a = Some (ProductArray L)"
    by (simp add: lookup_append_old)
  from derivations_result [OF a1] obtain c2 i2 cs2 where
    d2: "derivations a ?h1 = Some ((c2, schema_with i2), ?h1 @ cs2)"
    and lc2: "lookup (?h1 @ cs2) c2 = Some (StringArray (categories L))"
    and li2: "lookup (?h1 @ cs2) i2 = Some (ItemArray (Array_map_indexed list_item L))"
    by blast
  from lc1 have "c1 < length ?h1" by (rule lookup_Some_length)
  then have k1: "lookup (?h1 @ cs2) c1 = lookup ?h1 c1" by (rule lookup_append_old)
  from li1 have "i1 < length ?h1" by (rule lookup_Some_length)
  then have k2: "lookup (?h1 @ cs2) i1 = lookup ?h1 i1" by (rule lookup_append_old)
  have "(schema_with i2)\<lparr>mainEntity := (mainEntity (schema_with i2))\<lparr>itemListElement := i1\<rparr>\<rparr>
      = schema_with i1"
    by (simp add: schema_with_def)
  with d1 d2 lc1 lc2 li1 li2 k1 k2 show ?thesis
    by (simp add: itemListElement_schema_with itemListElement_schema del: append_assoc)
qed

theorem derivations_twice_witness:
  "lookup sample_store 0 = Some (ProductArray sample_products)
   \<and> (\<exists>c1 s1 h1 c2 s2 h2.
        derivations 0 sample_store = Some ((c1, s1), h1)
      \<and> derivations 0 h1 = Some ((c2, s2), h2)
      \<and> lookup h1 c1 = Some (StringArray [lit ''x'', lit ''y''])
      \<and> lookup h2 c2 = Some (StringArray [lit ''x'', lit ''y''])
      \<and> lookup h2 (itemListElement (mainEntity s2))
          = lookup h1 (itemListElement (mainEntity s1)))"
proof -
  from derivations_twice [OF sample_store_products] obtain c1 s1 h1 c2 s2 h2 where
    "derivations 0 sample_store = Some ((c1, s1), h1)"
    and "derivations 0 h1 = Some ((c2, s2), h2)"
    and "lookup h1 c1 = Some (StringArray (categories sample_products))"
    and "lookup h2 c2 = lookup h1 c1"
    and "lookup h2 (itemListElement (mainEntity s2))
          = lookup h1 (itemListElement (mainEntity s1))"
    by blast
  with sample_store_products show ?thesis
    by (simp add: categories_sample_products)
qed

end
